theory Spec2Isabelle
  imports Main "HOL-Library.Word"
begin

unbundle bit_operations_syntax

section \<open>Data model\<close>

text \<open>
  The package \<^verbatim>\<open>network\<close> (file \<^verbatim>\<open>network/network.go\<close>) is embedded function by
  function. Go's \<^verbatim>\<open>byte\<close> is an 8-bit word, \<^verbatim>\<open>uint16\<close> a 16-bit word, \<^verbatim>\<open>uint64\<close> a
  64-bit word; a Go \<^verbatim>\<open>string\<close> is a sequence of bytes, here a \<open>string\<close>.

  An \<^verbatim>\<open>error\<close> value is \<open>error option\<close>: \<open>None\<close> is Go's \<^verbatim>\<open>nil\<close>. The
  constructors separate where an error comes from: \<open>ErrNew\<close> is \<^verbatim>\<open>errors.New\<close> of
  this package, \<open>NetErr\<close> an error of the \<^verbatim>\<open>net\<close> package (dial, read, write),
  \<open>CodecErr\<close> an error of a decoder (\<^verbatim>\<open>encoding.Unmarshal\<close>, \<^verbatim>\<open>net.SplitHostPort\<close>).
\<close>

type_synonym byte = "8 word"

datatype error = ErrNew string | NetErr string | CodecErr string

record NetAddress =
  Host :: string
  Port :: "16 word"

definition bytes_to_string :: "byte list \<Rightarrow> string" where
  "bytes_to_string bs = map (\<lambda>b. char_of (unat b)) bs"

definition string_to_bytes :: "string \<Rightarrow> byte list" where
  "string_to_bytes s = map (\<lambda>c. of_nat (of_char c)) s"

subsection \<open>Connections\<close>

text \<open>
  A \<^verbatim>\<open>net.Conn\<close> as one endpoint sees it. \<open>inbound\<close> is what the peer has sent
  and the endpoint has not read yet, in the segments in which \<^verbatim>\<open>Read\<close> will deliver
  it; \<open>ending\<close> is what happens once the segments are used up: the peer has closed
  the connection (\<^verbatim>\<open>Read\<close> returns \<^verbatim>\<open>io.EOF\<close>), the connection has failed (\<^verbatim>\<open>Read\<close>
  returns that error), or the peer keeps the connection open and sends nothing more
  (\<^verbatim>\<open>Read\<close> blocks; the package sets no read deadline). \<open>outbound\<close> collects the
  bytes written; \<open>wfail\<close>, when set, is the error every \<^verbatim>\<open>Write\<close> fails with.
  \<open>remote\<close> is \<^verbatim>\<open>RemoteAddr().String()\<close>.

  A call that blocks forever, or a loop that never ends, has the value \<open>None\<close> in
  the functions below whose result is an \<open>option\<close>.
\<close>

datatype ending = Closed | Failed error | Silent

record conn =
  inbound :: "byte list list"
  ending :: ending
  outbound :: "byte list"
  wfail :: "error option"
  remote :: string

text \<open>
  \<^verbatim>\<open>conn.Read(buf)\<close> with \<^verbatim>\<open>len(buf) = n\<close>: the bytes read (their number is Go's
  first result), the error, and the connection afterwards. One call delivers at most
  one segment, and at most \<open>n\<close> bytes of it.
\<close>

definition conn_Read :: "conn \<Rightarrow> nat \<Rightarrow> (byte list \<times> error option \<times> conn) option" where
  "conn_Read c n =
     (case inbound c of
        seg # rest \<Rightarrow>
          if length seg \<le> n then Some (seg, None, c\<lparr>inbound := rest\<rparr>)
          else Some (take n seg, None, c\<lparr>inbound := drop n seg # rest\<rparr>)
      | [] \<Rightarrow>
          (case ending c of
             Closed \<Rightarrow> Some ([], Some (NetErr ''EOF''), c)
           | Failed e \<Rightarrow> Some ([], Some e, c)
           | Silent \<Rightarrow> None))"

text \<open>
  \<^verbatim>\<open>conn.Write(b)\<close>: the number of bytes written, the error, and the connection
  afterwards.
\<close>

definition conn_Write :: "conn \<Rightarrow> byte list \<Rightarrow> int \<times> error option \<times> conn" where
  "conn_Write c b =
     (case wfail c of
        Some e \<Rightarrow> (0, Some e, c)
      | None \<Rightarrow> (int (length b), None, c\<lparr>outbound := outbound c @ b\<rparr>))"

text \<open>
  \<^verbatim>\<open>(*bytes.Buffer).ReadFrom(conn)\<close> of the standard library: it reads from the
  connection until \<^verbatim>\<open>io.EOF\<close> and appends everything to the buffer; \<^verbatim>\<open>io.EOF\<close> is not
  reported as an error, every other error is. The result is the bytes appended (their
  number is Go's first result), the error, and the connection afterwards. On a
  connection that stays open it does not return.
\<close>

definition Buffer_ReadFrom :: "conn \<Rightarrow> (byte list \<times> error option \<times> conn) option" where
  "Buffer_ReadFrom c =
     (case ending c of
        Closed \<Rightarrow> Some (concat (inbound c), None, c\<lparr>inbound := []\<rparr>)
      | Failed e \<Rightarrow> Some (concat (inbound c), Some e, c\<lparr>inbound := []\<rparr>)
      | Silent \<Rightarrow> None)"

subsection \<open>The integer codec of the encoding package\<close>

text \<open>
  Modelled from the spec: \<^verbatim>\<open>encoding.EncUint64\<close> and \<^verbatim>\<open>encoding.DecUint64\<close> belong to
  the imported package \<^verbatim>\<open>encoding\<close>, which is not part of the source at hand. The
  spec asks for a length of fixed byte order, used consistently; the request
  \<^verbatim>\<open>[]byte{'P', 1, 0, 0, 0, 10}\<close> that \<^verbatim>\<open>requestPeers\<close> writes for a payload of one
  byte fixes the order as little-endian. \<open>EncUint64\<close> gives the 8 bytes of its
  argument, least significant first; \<open>DecUint64\<close> reads up to 8 bytes the same way,
  a shorter slice standing for its zero-padded extension.
\<close>

fun enc_le :: "nat \<Rightarrow> 64 word \<Rightarrow> byte list" where
  "enc_le 0 i = []"
| "enc_le (Suc j) i = ucast i # enc_le j (drop_bit 8 i)"

definition EncUint64 :: "64 word \<Rightarrow> byte list" where
  "EncUint64 i = enc_le 8 i"

fun dec_le :: "byte list \<Rightarrow> 64 word" where
  "dec_le [] = 0"
| "dec_le (b # bs) = ucast b OR push_bit 8 (dec_le bs)"

definition DecUint64 :: "byte list \<Rightarrow> 64 word" where
  "DecUint64 b = dec_le (take 8 b)"

section \<open>Framing: ReadPrefix, WritePrefix, SendVal\<close>

definition maxMsgLen :: int where
  "maxMsgLen = 2 ^ 16"

text \<open>
  The loop of \<^verbatim>\<open>ReadPrefix\<close>,
  \<^verbatim>\<open>for total := 0; total < msgLen; { n, err := data.ReadFrom(conn); ... total += int(n) }\<close>,
  with the two statements after it. Its state is \<^verbatim>\<open>total\<close>, the contents of the
  buffer \<^verbatim>\<open>data\<close> and the connection. Nothing bounds the number of rounds, so the
  loop is a partial function: \<open>None\<close> when it does not return.
\<close>

partial_function (option) ReadPrefix_loop ::
  "int \<Rightarrow> int \<times> byte list \<times> conn \<Rightarrow> ((error + byte list) \<times> conn) option" where
  "ReadPrefix_loop msgLen st =
     (case st of (tot, data, c) \<Rightarrow>
        if tot < msgLen then
          (case Buffer_ReadFrom c of
             None \<Rightarrow> None
           | Some (bs, err, c') \<Rightarrow>
               (case err of
                  Some e \<Rightarrow> Some (Inl e, c')
                | None \<Rightarrow> ReadPrefix_loop msgLen (tot + int (length bs), data @ bs, c')))
        else if int (length data) \<noteq> msgLen
          then Some (Inl (ErrNew ''message length mismatch''), c)
          else Some (Inr data, c))"

text \<open>
  \<^verbatim>\<open>ReadPrefix\<close>: \<open>Inl\<close> is the error result (with a \<^verbatim>\<open>nil\<close> slice), \<open>Inr\<close> the
  bytes returned with a \<^verbatim>\<open>nil\<close> error. \<^verbatim>\<open>int(encoding.DecUint64(prefix))\<close> is the
  64-bit word read as a signed number.
\<close>

definition ReadPrefix :: "conn \<Rightarrow> ((error + byte list) \<times> conn) option" where
  "ReadPrefix c =
     (case conn_Read c 4 of
        None \<Rightarrow> None
      | Some (prefix, err, c1) \<Rightarrow>
          if err \<noteq> None \<or> length prefix \<noteq> 4
            then Some (Inl (ErrNew ''could not read length prefix''), c1)
          else
            let msgLen = sint (DecUint64 prefix) in
            if msgLen > maxMsgLen then Some (Inl (ErrNew ''message too long''), c1)
            else ReadPrefix_loop msgLen (0, [], c1))"

definition WritePrefix :: "conn \<Rightarrow> byte list \<Rightarrow> int \<times> error option \<times> conn" where
  "WritePrefix c data =
     (let encLen = EncUint64 (of_nat (length data))
      in conn_Write c (take 4 encLen @ data))"

text \<open>
  \<^verbatim>\<open>SendVal(t, val)\<close> marshals the value once and returns a closure that writes the
  message; \<open>encVal\<close> is \<^verbatim>\<open>encoding.Marshal(val)\<close>, computed by the caller, since the
  marshaller is outside this package.
\<close>

definition SendVal :: "byte \<Rightarrow> byte list \<Rightarrow> conn \<Rightarrow> error option \<times> conn" where
  "SendVal t encVal =
     (let encLen = EncUint64 (of_nat (length encVal));
          msg = t # (take 4 encLen @ encVal)
      in (\<lambda>c. case conn_Write c msg of (n, err, c') \<Rightarrow> (err, c')))"

section \<open>The server\<close>

subsection \<open>Run-time types and handlers\<close>

text \<open>
  \<^verbatim>\<open>RegisterRPC\<close> inspects its argument with the package \<^verbatim>\<open>reflect\<close>. A Go type is
  a function type with its input and output types, the interface type \<^verbatim>\<open>error\<close>, or
  any other type, known by its name. The argument \<^verbatim>\<open>fn interface{}\<close> is the \<^verbatim>\<open>nil\<close>
  interface or a value with its dynamic type; of the value, only what calling it on
  one decoded argument returns is kept (it is consulted for functions of one input
  and one \<^verbatim>\<open>error\<close> result only). \<open>'v\<close> is the type of decoded values. Variadic
  functions and \<^verbatim>\<open>nil\<close> function values are not modelled.

  A Go call either returns or panics.
\<close>

datatype gotype = FuncType "gotype list" "gotype list" | ErrorType | NamedType string

datatype kind = FuncKind | InterfaceKind | OtherKind

datatype 'v iface = NilIface | Iface gotype "'v \<Rightarrow> error option"

datatype 'a outcome = Panics string | Returns 'a

fun Kind :: "gotype \<Rightarrow> kind" where
  "Kind (FuncType ins outs) = FuncKind"
| "Kind ErrorType = InterfaceKind"
| "Kind (NamedType n) = OtherKind"

fun NumIn :: "gotype \<Rightarrow> nat outcome" where
  "NumIn (FuncType ins outs) = Returns (length ins)"
| "NumIn ErrorType = Panics ''reflect: NumIn of non-func type''"
| "NumIn (NamedType n) = Panics ''reflect: NumIn of non-func type''"

fun NumOut :: "gotype \<Rightarrow> nat outcome" where
  "NumOut (FuncType ins outs) = Returns (length outs)"
| "NumOut ErrorType = Panics ''reflect: NumOut of non-func type''"
| "NumOut (NamedType n) = Panics ''reflect: NumOut of non-func type''"

fun In :: "gotype \<Rightarrow> nat \<Rightarrow> gotype outcome" where
  "In (FuncType ins outs) i =
     (if i < length ins then Returns (ins ! i) else Panics ''reflect: Func index out of bounds'')"
| "In ErrorType i = Panics ''reflect: In of non-func type''"
| "In (NamedType n) i = Panics ''reflect: In of non-func type''"

fun Out :: "gotype \<Rightarrow> nat \<Rightarrow> gotype outcome" where
  "Out (FuncType ins outs) i =
     (if i < length outs then Returns (outs ! i) else Panics ''reflect: Func index out of bounds'')"
| "Out ErrorType i = Panics ''reflect: Out of non-func type''"
| "Out (NamedType n) i = Panics ''reflect: Out of non-func type''"

text \<open>Go's \<^verbatim>\<open>||\<close>: the right operand is evaluated only when the left one is false.\<close>

definition or_else :: "bool outcome \<Rightarrow> bool outcome \<Rightarrow> bool outcome" where
  "or_else a b =
     (case a of Panics m \<Rightarrow> Panics m | Returns x \<Rightarrow> if x then Returns True else b)"

text \<open>
  A handler, \<^verbatim>\<open>func(net.Conn, []byte) error\<close>. The handlers of this package close
  over the server that holds them, so the table stores what each handler is rather
  than a function: the three default handlers, the closure \<^verbatim>\<open>sfn\<close> that
  \<^verbatim>\<open>RegisterRPC\<close> builds (with the \<^verbatim>\<open>typ\<close> and \<^verbatim>\<open>val\<close> it captures), or a function
  of the caller.
\<close>

datatype 'v handler =
    SendHostname
  | SharePeers
  | AddPeer
  | RPC gotype "'v \<Rightarrow> error option"
  | Custom "conn \<Rightarrow> byte list \<Rightarrow> (error option \<times> conn) option"

text \<open>
  \<^verbatim>\<open>TCPServer\<close>, without its listener. The address book is a Go map used as a set;
  the handler table maps a message type to its handler.
\<close>

record 'v TCPServer =
  myAddr :: NetAddress
  addressbook :: "NetAddress set"
  handlerMap :: "byte \<rightharpoonup> 'v handler"

text \<open>
  Go leaves the order in which \<^verbatim>\<open>range\<close> visits the keys of a map open. A function
  with a \<^verbatim>\<open>range\<close> over the address book takes the order of that one loop as the
  argument \<open>ord\<close>; for a loop that does not change the book, Go allows exactly the
  orders with \<open>range_order book ord\<close>.
\<close>

definition range_order :: "NetAddress set \<Rightarrow> NetAddress list \<Rightarrow> bool" where
  "range_order book ord \<longleftrightarrow> distinct ord \<and> set ord = book"

subsection \<open>The network\<close>

text \<open>
  What \<^verbatim>\<open>net.DialTimeout\<close> gives is outside the program: \<open>net k addr\<close> is the
  outcome of dialling \<open>addr\<close> after \<open>k\<close> earlier dials of the run, \<open>None\<close> for
  an error, otherwise the connection; so whether a peer can be reached, and what it
  sends, may change from one dial to the next. The functions that dial carry the
  number of dials made so far next to the server.
\<close>

type_synonym network = "nat \<Rightarrow> NetAddress \<Rightarrow> conn option"

type_synonym 'v st = "nat \<times> 'v TCPServer"

text \<open>
  \<^verbatim>\<open>(*NetAddress).Call\<close>. The function called on the connection may change the
  server and dial itself, and may not return.
\<close>

definition Call ::
  "network \<Rightarrow> NetAddress \<Rightarrow> (conn \<Rightarrow> 'v st \<Rightarrow> (error option \<times> 'v st) option) \<Rightarrow> 'v st
     \<Rightarrow> (error option \<times> 'v st) option" where
  "Call net na fn st =
     (case st of (clk, tcps) \<Rightarrow>
        (case net clk na of
           None \<Rightarrow> Some (Some (NetErr ''dial''), (Suc clk, tcps))
         | Some c \<Rightarrow> fn c (Suc clk, tcps)))"

definition Ping :: "network \<Rightarrow> nat \<Rightarrow> NetAddress \<Rightarrow> bool \<times> nat" where
  "Ping net clk addr =
     (case net clk addr of
        None \<Rightarrow> (False, Suc clk)
      | Some c \<Rightarrow> (True, Suc clk))"

subsection \<open>Address book and handler table\<close>

text \<open>\<^verbatim>\<open>RandomPeer\<close>: the result \<^verbatim>\<open>rand\<close> starts as the zero \<^verbatim>\<open>NetAddress\<close>.\<close>

definition RandomPeer :: "NetAddress list \<Rightarrow> NetAddress" where
  "RandomPeer ord =
     (case ord of
        [] \<Rightarrow> \<lparr>Host = [], Port = 0\<rparr>
      | addr # rest \<Rightarrow> addr)"

fun Broadcast ::
  "network \<Rightarrow> NetAddress list \<Rightarrow> (conn \<Rightarrow> 'v st \<Rightarrow> (error option \<times> 'v st) option) \<Rightarrow> 'v st
     \<Rightarrow> 'v st option" where
  "Broadcast net [] fn st = Some st"
| "Broadcast net (addr # rest) fn st =
     (case Call net addr fn st of
        None \<Rightarrow> None
      | Some (err, st') \<Rightarrow> Broadcast net rest fn st')"

definition RegisterHandler :: "'v TCPServer \<Rightarrow> byte \<Rightarrow> 'v handler \<Rightarrow> 'v TCPServer" where
  "RegisterHandler tcps t fn = tcps\<lparr>handlerMap := (handlerMap tcps)(t \<mapsto> fn)\<rparr>"

text \<open>
  The test of \<^verbatim>\<open>RegisterRPC\<close>,
  \<^verbatim>\<open>typ.Kind() != reflect.Func || typ.NumIn() != 1 || typ.NumOut() != 1 || typ.Out(0) != error\<close>.
\<close>

definition wrong_signature :: "gotype \<Rightarrow> bool outcome" where
  "wrong_signature typ =
     or_else (Returns (Kind typ \<noteq> FuncKind))
       (or_else (map_outcome (\<lambda>n. n \<noteq> 1) (NumIn typ))
          (or_else (map_outcome (\<lambda>n. n \<noteq> 1) (NumOut typ))
             (map_outcome (\<lambda>ty. ty \<noteq> ErrorType) (Out typ 0))))"

text \<open>
  \<^verbatim>\<open>RegisterRPC\<close>. \<^verbatim>\<open>reflect.TypeOf\<close> of the \<^verbatim>\<open>nil\<close> interface is the \<^verbatim>\<open>nil\<close> type, and
  \<^verbatim>\<open>typ.Kind()\<close> on it dereferences a \<^verbatim>\<open>nil\<close> pointer.
\<close>

definition RegisterRPC ::
  "'v TCPServer \<Rightarrow> byte \<Rightarrow> 'v iface \<Rightarrow> (error option \<times> 'v TCPServer) outcome" where
  "RegisterRPC tcps t fn =
     (case fn of
        NilIface \<Rightarrow> Panics ''invalid memory address or nil pointer dereference''
      | Iface typ val \<Rightarrow>
          (case wrong_signature typ of
             Panics m \<Rightarrow> Panics m
           | Returns wrong \<Rightarrow>
               if wrong
                 then Returns (Some (ErrNew ''registered function has wrong type signature''), tcps)
                 else Returns (None, RegisterHandler tcps t (RPC typ val))))"

text \<open>
  The closure \<^verbatim>\<open>sfn\<close> of \<^verbatim>\<open>RegisterRPC\<close>, the handler \<open>RPC typ val\<close> when it runs on
  the payload \<open>b\<close>. \<open>unm ty b\<close> is \<^verbatim>\<open>encoding.Unmarshal\<close> of \<open>b\<close> into a new value of
  type \<open>ty\<close> (the marshaller is outside this package). The result is the error
  returned and the arguments on which the registered function was called.
\<close>

definition sfn ::
  "(gotype \<Rightarrow> byte list \<Rightarrow> error + 'v) \<Rightarrow> gotype \<Rightarrow> ('v \<Rightarrow> error option) \<Rightarrow> byte list
     \<Rightarrow> (error option \<times> 'v list) outcome" where
  "sfn unm typ val b =
     (case In typ 0 of
        Panics m \<Rightarrow> Panics m
      | Returns ty \<Rightarrow>
          (case unm ty b of
             Inl err \<Rightarrow> Returns (Some err, [])
           | Inr v \<Rightarrow> Returns (val v, [v])))"

subsection \<open>The default handlers\<close>

definition sendHostname :: "conn \<Rightarrow> byte list \<Rightarrow> error option \<times> conn" where
  "sendHostname c msgData =
     (case WritePrefix c (string_to_bytes (remote c)) of (n, err, c') \<Rightarrow> (err, c'))"

text \<open>
  The loop of \<^verbatim>\<open>sharePeers\<close> over the book, in the order \<open>ord\<close>; \<^verbatim>\<open>num\<close> is a
  byte.
\<close>

fun sharePeers_loop :: "NetAddress list \<Rightarrow> byte \<Rightarrow> NetAddress list \<Rightarrow> NetAddress list" where
  "sharePeers_loop [] num addrs = addrs"
| "sharePeers_loop (addr # rest) num addrs =
     (if num = 0 then addrs
      else sharePeers_loop rest (num - 1) (addrs @ [addr]))"

text \<open>\<open>mar\<close> is \<^verbatim>\<open>encoding.Marshal\<close> on a slice of addresses.\<close>

definition sharePeers ::
  "(NetAddress list \<Rightarrow> byte list) \<Rightarrow> NetAddress list \<Rightarrow> conn \<Rightarrow> byte list
     \<Rightarrow> error option \<times> conn" where
  "sharePeers mar ord c msgData =
     (if length msgData \<noteq> 1 then (Some (ErrNew ''invalid number of peers''), c)
      else
        let num = msgData ! 0;
            addrs = sharePeers_loop ord num []
        in case WritePrefix c (mar addrs) of (n, err, c') \<Rightarrow> (err, c'))"

text \<open>\<open>unm\<close> is \<^verbatim>\<open>encoding.Unmarshal\<close> into a \<^verbatim>\<open>NetAddress\<close>.\<close>

definition addPeer ::
  "(byte list \<Rightarrow> error + NetAddress) \<Rightarrow> 'v TCPServer \<Rightarrow> byte list
     \<Rightarrow> error option \<times> 'v TCPServer" where
  "addPeer unm tcps data =
     (case unm data of
        Inl err \<Rightarrow> (Some err, tcps)
      | Inr addr \<Rightarrow> (None, tcps\<lparr>addressbook := insert addr (addressbook tcps)\<rparr>))"

subsection \<open>Bootstrap\<close>

text \<open>
  \<open>shp\<close> is \<^verbatim>\<open>net.SplitHostPort\<close> of the standard library: the host and the port of
  a string, or an error.
\<close>

definition learnHostname ::
  "(string \<Rightarrow> error + string \<times> string) \<Rightarrow> conn \<Rightarrow> 'v st \<Rightarrow> (error option \<times> 'v st) option" where
  "learnHostname shp c st =
     (case st of (clk, tcps) \<Rightarrow>
        (case conn_Write c [72, 0, 0, 0, 0] of
           (n, Some err, c1) \<Rightarrow> Some (Some err, st)
         | (n, None, c1) \<Rightarrow>
             (case ReadPrefix c1 of
                None \<Rightarrow> None
              | Some (Inl err, c2) \<Rightarrow> Some (Some err, st)
              | Some (Inr data, c2) \<Rightarrow>
                  (case shp (bytes_to_string data) of
                     Inl err \<Rightarrow> Some (Some err, st)
                   | Inr (host, port) \<Rightarrow>
                       Some (None, (clk, tcps\<lparr>myAddr := (myAddr tcps)\<lparr>Host := host\<rparr>\<rparr>))))))"

text \<open>The loop of \<^verbatim>\<open>requestPeers\<close> over the addresses received.\<close>

fun requestPeers_loop :: "network \<Rightarrow> NetAddress list \<Rightarrow> 'v st \<Rightarrow> 'v st" where
  "requestPeers_loop net [] st = st"
| "requestPeers_loop net (addr # rest) (clk, tcps) =
     (if addr \<noteq> myAddr tcps then
        (case Ping net clk addr of
           (ok, clk') \<Rightarrow>
             if ok
               then requestPeers_loop net rest
                      (clk', tcps\<lparr>addressbook := insert addr (addressbook tcps)\<rparr>)
               else requestPeers_loop net rest (clk', tcps))
      else requestPeers_loop net rest (clk, tcps))"

text \<open>\<open>unm\<close> is \<^verbatim>\<open>encoding.Unmarshal\<close> into a slice of addresses.\<close>

definition requestPeers ::
  "(byte list \<Rightarrow> error + NetAddress list) \<Rightarrow> network \<Rightarrow> conn \<Rightarrow> 'v st
     \<Rightarrow> (error option \<times> 'v st) option" where
  "requestPeers unm net c st =
     (case conn_Write c [80, 1, 0, 0, 0, 10] of
        (n, Some err, c1) \<Rightarrow> Some (Some err, st)
      | (n, None, c1) \<Rightarrow>
          (case ReadPrefix c1 of
             None \<Rightarrow> None
           | Some (Inl err, c2) \<Rightarrow> Some (Some err, st)
           | Some (Inr data, c2) \<Rightarrow>
               (case unm data of
                  Inl err \<Rightarrow> Some (Some err, st)
                | Inr addrs \<Rightarrow> Some (None, requestPeers_loop net addrs st))))"

text \<open>The first loop of \<^verbatim>\<open>Bootstrap\<close>, over \<^verbatim>\<open>BootstrapPeers\<close>.\<close>

fun Bootstrap_seed :: "network \<Rightarrow> NetAddress list \<Rightarrow> 'v st \<Rightarrow> 'v st" where
  "Bootstrap_seed net [] st = st"
| "Bootstrap_seed net (addr # rest) (clk, tcps) =
     (case Ping net clk addr of
        (ok, clk') \<Rightarrow>
          if ok
            then Bootstrap_seed net rest (clk', tcps\<lparr>addressbook := insert addr (addressbook tcps)\<rparr>)
            else Bootstrap_seed net rest (clk', tcps))"

text \<open>The second loop, which stops at the first address whose call returns \<^verbatim>\<open>nil\<close>.\<close>

fun Bootstrap_learn ::
  "(string \<Rightarrow> error + string \<times> string) \<Rightarrow> network \<Rightarrow> NetAddress list \<Rightarrow> 'v st
     \<Rightarrow> 'v st option" where
  "Bootstrap_learn shp net [] st = Some st"
| "Bootstrap_learn shp net (addr # rest) st =
     (case Call net addr (learnHostname shp) st of
        None \<Rightarrow> None
      | Some (err, st') \<Rightarrow>
          if err = None then Some st' else Bootstrap_learn shp net rest st')"

text \<open>
  \<^verbatim>\<open>Bootstrap\<close>. The global \<^verbatim>\<open>BootstrapPeers\<close> is the argument of that name;
  \<open>ord_learn\<close>, \<open>ord_request\<close> and \<open>ord_announce\<close> are the orders of the three
  \<^verbatim>\<open>range\<close> loops over the book (the second loop adds to the book while it runs, and
  Go may or may not visit what it adds); \<open>marA\<close> is \<^verbatim>\<open>encoding.Marshal\<close> on an
  address. The result \<^verbatim>\<open>err\<close> is declared by the signature and starts as \<^verbatim>\<open>nil\<close>.
\<close>

definition Bootstrap ::
  "(string \<Rightarrow> error + string \<times> string) \<Rightarrow> (byte list \<Rightarrow> error + NetAddress list)
     \<Rightarrow> (NetAddress \<Rightarrow> byte list) \<Rightarrow> network \<Rightarrow> NetAddress list
     \<Rightarrow> NetAddress list \<Rightarrow> NetAddress list \<Rightarrow> NetAddress list \<Rightarrow> 'v st
     \<Rightarrow> (error option \<times> 'v st) option" where
  "Bootstrap shp unm marA net BootstrapPeers ord_learn ord_request ord_announce st =
     (let err = None;
          st1 = Bootstrap_seed net BootstrapPeers st
      in case Bootstrap_learn shp net ord_learn st1 of
           None \<Rightarrow> None
         | Some st2 \<Rightarrow>
             (case Broadcast net ord_request (requestPeers unm net) st2 of
                None \<Rightarrow> None
              | Some st3 \<Rightarrow>
                  (case Broadcast net ord_announce
                          (\<lambda>c s. case SendVal 65 (marA (myAddr (snd st3))) c of
                                    (e, c') \<Rightarrow> Some (e, s))
                          st3 of
                     None \<Rightarrow> None
                   | Some st4 \<Rightarrow> Some (err, st4))))"

section \<open>Notions used in the statements\<close>

text \<open>
  The loop of \<^verbatim>\<open>requestPeers\<close> probes every address of the reply that is not the
  node's own, one dial each. \<open>probes_before my addrs i\<close> is the number of probes made
  when the loop reaches position \<open>i\<close> of the reply \<open>addrs\<close>, so the probe of that
  address is dial number \<open>clk + probes_before my addrs i\<close> when the loop starts
  after \<open>clk\<close> dials.
\<close>

definition probes_before :: "NetAddress \<Rightarrow> NetAddress list \<Rightarrow> nat \<Rightarrow> nat" where
  "probes_before my addrs i = length (filter (\<lambda>a. a \<noteq> my) (take i addrs))"

text \<open>
  A network on which no read of a frame is left waiting: on every connection that a
  dial gives, whatever has been written on it, \<^verbatim>\<open>ReadPrefix\<close> returns (with bytes or
  with an error).
\<close>

definition reads_return :: "network \<Rightarrow> bool" where
  "reads_return net \<longleftrightarrow>
     (\<forall>k a c out. net k a = Some c \<longrightarrow> ReadPrefix (c\<lparr>outbound := out\<rparr>) \<noteq> None)"

section \<open>Concrete connections, peers and a codec\<close>

text \<open>
  \<open>stream segs e\<close> is a fresh connection on which the peer sends the segments
  \<open>segs\<close> and then ends as \<open>e\<close> says.
\<close>

definition stream :: "byte list list \<Rightarrow> ending \<Rightarrow> conn" where
  "stream segs e = \<lparr>inbound = segs, ending = e, outbound = [], wfail = None, remote = []\<rparr>"

text \<open>
  Modelled from the spec: \<^verbatim>\<open>encoding.Marshal\<close> and \<^verbatim>\<open>encoding.Unmarshal\<close> belong to
  the imported package \<^verbatim>\<open>encoding\<close>, which is not part of the source at hand; the
  spec describes them as an opaque codec with \<open>unmarshal (marshal addr) = addr\<close>. The
  functions of the server take the codec as an argument. The codec below is one
  instance, for the concrete runs: an address is the length of its host in one byte,
  the host, and the port in two bytes; a list is its length in one byte and its
  addresses.
\<close>

definition marshal_addr :: "NetAddress \<Rightarrow> byte list" where
  "marshal_addr a =
     of_nat (length (Host a)) # string_to_bytes (Host a)
       @ [ucast (Port a), ucast (drop_bit 8 (Port a))]"

fun decode_addr :: "byte list \<Rightarrow> (NetAddress \<times> byte list) option" where
  "decode_addr [] = None"
| "decode_addr (n # bs) =
     (let k = unat n in
      if length bs < k + 2 then None
      else Some (\<lparr>Host = bytes_to_string (take k bs),
                  Port = ucast (bs ! k) OR push_bit 8 (ucast (bs ! (k + 1)))\<rparr>,
                 drop (k + 2) bs))"

definition unmarshal_addr :: "byte list \<Rightarrow> error + NetAddress" where
  "unmarshal_addr data =
     (case decode_addr data of
        None \<Rightarrow> Inl (CodecErr ''could not decode'')
      | Some (a, r) \<Rightarrow> if r = [] then Inr a else Inl (CodecErr ''could not decode''))"

definition marshal_addrs :: "NetAddress list \<Rightarrow> byte list" where
  "marshal_addrs as = of_nat (length as) # concat (map marshal_addr as)"

fun decode_addrs :: "nat \<Rightarrow> byte list \<Rightarrow> (NetAddress list \<times> byte list) option" where
  "decode_addrs 0 bs = Some ([], bs)"
| "decode_addrs (Suc k) bs =
     (case decode_addr bs of
        None \<Rightarrow> None
      | Some (a, bs') \<Rightarrow>
          (case decode_addrs k bs' of
             None \<Rightarrow> None
           | Some (as, r) \<Rightarrow> Some (a # as, r)))"

definition unmarshal_addrs :: "byte list \<Rightarrow> error + NetAddress list" where
  "unmarshal_addrs data =
     (case data of
        [] \<Rightarrow> Inl (CodecErr ''could not decode'')
      | n # bs \<Rightarrow>
          (case decode_addrs (unat n) bs of
             None \<Rightarrow> Inl (CodecErr ''could not decode'')
           | Some (as, r) \<Rightarrow> if r = [] then Inr as else Inl (CodecErr ''could not decode'')))"

text \<open>
  Three peers, and a server that listens on port 9988 and knows nobody; its own
  address has the empty host, as \<^verbatim>\<open>NewTCPServer\<close> leaves it.
\<close>

definition P1 :: NetAddress where
  "P1 = \<lparr>Host = ''p1'', Port = 4001\<rparr>"

definition P2 :: NetAddress where
  "P2 = \<lparr>Host = ''p2'', Port = 4002\<rparr>"

definition P3 :: NetAddress where
  "P3 = \<lparr>Host = ''p3'', Port = 4003\<rparr>"

definition server0 :: "nat TCPServer" where
  "server0 =
     \<lparr>myAddr = \<lparr>Host = [], Port = 9988\<rparr>,
      addressbook = {},
      handlerMap = [72 \<mapsto> SendHostname, 80 \<mapsto> SharePeers, 65 \<mapsto> AddPeer]\<rparr>"

text \<open>
  \<open>frame payload\<close> is a payload behind its four length bytes. \<open>split_host_port\<close>
  stands for \<^verbatim>\<open>net.SplitHostPort\<close> in the concrete runs: it splits at the last colon.
\<close>

definition frame :: "byte list \<Rightarrow> byte list" where
  "frame payload = take 4 (EncUint64 (of_nat (length payload))) @ payload"

definition split_host_port :: "string \<Rightarrow> error + string \<times> string" where
  "split_host_port s =
     (let r = rev s;
          port = rev (takeWhile (\<lambda>ch. ch \<noteq> CHR '':'') r);
          rest = dropWhile (\<lambda>ch. ch \<noteq> CHR '':'') r
      in if rest = [] then Inl (CodecErr ''missing port in address'')
         else Inr (rev (tl rest), port))"

text \<open>
  Three networks. On \<open>net_P2_only\<close> the peer \<open>P2\<close> accepts connections and closes
  them at once, and nobody else can be reached. On \<open>net_silent_P1\<close> the peer \<open>P1\<close>
  accepts connections, sends nothing and keeps them open. \<open>net_scenario\<close> is the
  bootstrap scenario of the spec: \<open>P1\<close> answers the second dial of the run, the
  hostname query, with \<^verbatim>\<open>203.0.113.5:4001\<close>, and the third, the peer-share request,
  with \<open>P2\<close> and \<open>P3\<close>; \<open>P2\<close> can be reached, \<open>P3\<close> cannot.
\<close>

definition net_P2_only :: network where
  "net_P2_only k a = (if a = P2 then Some (stream [] Closed) else None)"

definition net_silent_P1 :: network where
  "net_silent_P1 k a = (if a = P1 then Some (stream [] Silent) else None)"

definition host_reply :: "byte list" where
  "host_reply = string_to_bytes ''203.0.113.5:4001''"

definition peers_reply :: "byte list" where
  "peers_reply = marshal_addrs [P2, P3]"

definition net_scenario :: network where
  "net_scenario k a =
     (if a = P1 then
        (if k = 1 then Some (stream [frame host_reply] Closed)
         else if k = 2 then Some (stream [frame peers_reply] Closed)
         else Some (stream [] Closed))
      else if a = P2 then Some (stream [] Closed)
      else None)"

section \<open>Properties of the framing\<close>

subsection \<open>The length prefix\<close>

lemma take_enc_le: "take m (enc_le n w) = enc_le (min m n) w"
proof (induction n arbitrary: m w)
  case 0
  then show ?case by simp
next
  case (Suc n)
  show ?case by (cases m) (simp_all add: Suc.IH)
qed

lemma length_enc_le: "length (enc_le n w) = n"
  by (induction n arbitrary: w) simp_all

lemma length_EncUint64: "length (EncUint64 w) = 8"
  by (simp add: EncUint64_def length_enc_le)

lemma enc_le_numeral:
  "enc_le (numeral k) i = ucast i # enc_le (pred_numeral k) (drop_bit 8 i)"
  by (simp add: numeral_eq_Suc)

lemma dec_enc_le: "dec_le (enc_le n w) = take_bit (8 * n) w"
proof (induction n arbitrary: w)
  case 0
  then show ?case by simp
next
  case (Suc n)
  show ?case
    by (simp add: Suc.IH, rule bit_word_eqI, auto simp add: bit_simps)
qed

lemma DecUint64_prefix: "DecUint64 (take 4 (EncUint64 w)) = take_bit 32 w"
  by (simp add: DecUint64_def EncUint64_def take_enc_le dec_enc_le length_enc_le)

lemma sint_of_nat_64: "n < 2 ^ 63 \<Longrightarrow> sint (of_nat n :: 64 word) = int n"
  by (simp add: signed_of_nat signed_take_bit_int_eq_self)

lemma take_bit_32_of_nat: "n < 2 ^ 32 \<Longrightarrow> take_bit 32 (of_nat n :: 64 word) = of_nat n"
  by (simp add: take_bit_of_nat take_bit_nat_eq_self)

lemma msgLen_of_length:
  assumes "n < 2 ^ 32"
  shows "sint (DecUint64 (take 4 (EncUint64 (of_nat n)))) = int n"
proof -
  from assms have "n < 2 ^ 63" by simp
  with assms show ?thesis
    by (simp add: DecUint64_prefix take_bit_32_of_nat sint_of_nat_64)
qed

subsection \<open>The read loop\<close>

text \<open>
  A round of the loop that starts on a closed connection with nothing left to read
  and with \<open>tot < msgLen\<close> appends nothing and starts the next round in the same
  state: no such round returns.
\<close>

lemma ReadPrefix_loop_stuck:
  assumes "ReadPrefix_loop msgLen st = Some y"
  shows "\<not> (case st of (tot, data, c) \<Rightarrow> ending c = Closed \<and> inbound c = [] \<and> tot < msgLen)"
proof (rule ReadPrefix_loop.raw_induct
    [where P = "\<lambda>m st y. \<not> (case st of (tot, data, c) \<Rightarrow>
        ending c = Closed \<and> inbound c = [] \<and> tot < m)", OF _ assms])
  fix loop m st y
  assume IH: "\<And>m' st' y'. loop m' st' = Some y' \<Longrightarrow>
      \<not> (case st' of (tot, data, c) \<Rightarrow> ending c = Closed \<and> inbound c = [] \<and> tot < m')"
    and step: "(case st of (tot, data, c) \<Rightarrow>
        if tot < m then
          (case Buffer_ReadFrom c of
             None \<Rightarrow> None
           | Some (bs, err, c') \<Rightarrow>
               (case err of
                  Some e \<Rightarrow> Some (Inl e, c')
                | None \<Rightarrow> loop m (tot + int (length bs), data @ bs, c')))
        else if int (length data) \<noteq> m
          then Some (Inl (ErrNew ''message length mismatch''), c)
          else Some (Inr data, c)) = Some y"
  show "\<not> (case st of (tot, data, c) \<Rightarrow> ending c = Closed \<and> inbound c = [] \<and> tot < m)"
  proof
    assume stuck: "case st of (tot, data, c) \<Rightarrow> ending c = Closed \<and> inbound c = [] \<and> tot < m"
    obtain tot data c where st: "st = (tot, data, c)" by (cases st) auto
    from stuck st have c: "ending c = Closed" "inbound c = []" "tot < m" by auto
    from step st c have "loop m (tot, data, c\<lparr>inbound := []\<rparr>) = Some y"
      by (simp add: Buffer_ReadFrom_def)
    from IH [OF this] c show False by simp
  qed
qed

lemma ReadPrefix_loop_spins:
  assumes "ending c = Closed" "inbound c = []" "tot < msgLen"
  shows "ReadPrefix_loop msgLen (tot, data, c) = None"
proof (cases "ReadPrefix_loop msgLen (tot, data, c)")
  case None
  then show ?thesis .
next
  case (Some y)
  from ReadPrefix_loop_stuck [OF Some] assms show ?thesis by simp
qed

lemma ReadPrefix_loop_done:
  assumes "\<not> tot < msgLen"
  shows "ReadPrefix_loop msgLen (tot, data, c) =
    (if int (length data) \<noteq> msgLen
       then Some (Inl (ErrNew ''message length mismatch''), c)
       else Some (Inr data, c))"
  using assms by (subst ReadPrefix_loop.simps) simp

text \<open>
  On a connection that the peer has closed, the first round reads all that is left;
  the loop returns exactly when that reaches \<open>msgLen\<close>.
\<close>

lemma ReadPrefix_loop_Closed:
  assumes "ending c = Closed" "tot < msgLen"
  shows "ReadPrefix_loop msgLen (tot, data, c) =
    (let n = tot + int (length (concat (inbound c))); d = data @ concat (inbound c) in
     if n < msgLen then None
     else if int (length d) \<noteq> msgLen
       then Some (Inl (ErrNew ''message length mismatch''), c\<lparr>inbound := []\<rparr>)
       else Some (Inr d, c\<lparr>inbound := []\<rparr>))"
proof -
  let ?c' = "c\<lparr>inbound := []\<rparr>"
  let ?n = "tot + int (length (concat (inbound c)))"
  let ?d = "data @ concat (inbound c)"
  have step: "ReadPrefix_loop msgLen (tot, data, c) = ReadPrefix_loop msgLen (?n, ?d, ?c')"
    using assms by (subst ReadPrefix_loop.simps) (simp add: Buffer_ReadFrom_def)
  show ?thesis
  proof (cases "?n < msgLen")
    case True
    with assms have "ReadPrefix_loop msgLen (?n, ?d, ?c') = None"
      by (intro ReadPrefix_loop_spins) simp_all
    with step True show ?thesis by (simp add: Let_def)
  next
    case False
    then have "ReadPrefix_loop msgLen (?n, ?d, ?c') =
      (if int (length ?d) \<noteq> msgLen
       then Some (Inl (ErrNew ''message length mismatch''), ?c')
       else Some (Inr ?d, ?c'))"
      by (rule ReadPrefix_loop_done)
    with step False show ?thesis by (simp add: Let_def)
  qed
qed

lemma ReadPrefix_loop_Failed:
  assumes "ending c = Failed e" "tot < msgLen"
  shows "ReadPrefix_loop msgLen (tot, data, c) = Some (Inl e, c\<lparr>inbound := []\<rparr>)"
  using assms by (subst ReadPrefix_loop.simps) (simp add: Buffer_ReadFrom_def)

lemma ReadPrefix_loop_Silent:
  assumes "ending c = Silent" "tot < msgLen"
  shows "ReadPrefix_loop msgLen (tot, data, c) = None"
  using assms by (subst ReadPrefix_loop.simps) (simp add: Buffer_ReadFrom_def)

subsection \<open>ReadPrefix on streams that do not end with the frame\<close>

text \<open>
  A stream that the peer closes before the payload announced by the length prefix
  is complete: the first read delivers the four length bytes, and the call never
  returns.
\<close>

lemma ReadPrefix_truncated_never_returns:
  assumes c: "inbound c = (prefix @ p0) # rest" "ending c = Closed"
    and p: "length prefix = 4" "sint (DecUint64 prefix) \<le> maxMsgLen"
    and short: "int (length p0 + length (concat rest)) < sint (DecUint64 prefix)"
  shows "ReadPrefix c = None"
proof (cases "p0 = []")
  case True
  with c p have rd: "conn_Read c 4 = Some (prefix, None, c\<lparr>inbound := rest\<rparr>)"
    by (simp add: conn_Read_def)
  from short True have pos: "0 < sint (DecUint64 prefix)" by simp
  from c p short True pos show ?thesis
    by (simp add: ReadPrefix_def rd ReadPrefix_loop_Closed)
next
  case False
  with c p have rd: "conn_Read c 4 = Some (prefix, None, c\<lparr>inbound := p0 # rest\<rparr>)"
    by (simp add: conn_Read_def)
  from short have pos: "0 < sint (DecUint64 prefix)" by simp
  from c p short pos show ?thesis
    by (simp add: ReadPrefix_def rd ReadPrefix_loop_Closed)
qed

text \<open>
  C1, where the code departs from the claim. The stream holds the length prefix 2 and
  one byte of payload, and is then closed by the peer. The claim asks for a
  truncation error. \<^verbatim>\<open>ReadPrefix\<close> reads the payload with \<^verbatim>\<open>ReadFrom\<close>, which reads to
  the end of the stream and reports no error there; \<^verbatim>\<open>total\<close> stays at 1, below
  \<^verbatim>\<open>msgLen\<close>, and every further round reads nothing: the call never returns.
\<close>

theorem ReadPrefix_truncated_stream_never_returns:
  "ReadPrefix (stream [[2, 0, 0, 0, 7]] Closed) = None"
  by (simp add: ReadPrefix_def stream_def conn_Read_def DecUint64_def maxMsgLen_def
      ReadPrefix_loop_Closed)

text \<open>
  At this input the first read delivers the four length bytes without an error, so
  the test \<^verbatim>\<open>err != nil || n != len(prefix)\<close> is false and the loop is entered; no
  result, of an error or of bytes, comes back.
\<close>

theorem ReadPrefix_truncated_stream_never_returns_witness:
  "conn_Read (stream [[2, 0, 0, 0, 7]] Closed) 4 = Some ([2, 0, 0, 0], None, stream [[7]] Closed)
   \<and> (\<forall>res. ReadPrefix (stream [[2, 0, 0, 0, 7]] Closed) \<noteq> Some res)"
  using ReadPrefix_truncated_stream_never_returns
  by (simp add: conn_Read_def stream_def)

text \<open>
  Two more streams on which reading to the end of the stream is not reading \<open>L\<close>
  bytes: a frame of one byte followed by another byte is refused, though its first
  \<open>L\<close> payload bytes are there; and a complete frame on a connection that the peer
  keeps open (as a peer that waits for the reply does) is never returned.
\<close>

lemma ReadPrefix_trailing_bytes_rejected:
  "ReadPrefix (stream [[1, 0, 0, 0, 7, 8]] Closed) =
     Some (Inl (ErrNew ''message length mismatch''), stream [] Closed)"
  by (simp add: ReadPrefix_def stream_def conn_Read_def DecUint64_def maxMsgLen_def
      ReadPrefix_loop_Closed)

lemma ReadPrefix_open_connection_blocks:
  "ReadPrefix (stream [[1, 0, 0, 0, 7]] Silent) = None"
  by (simp add: ReadPrefix_def stream_def conn_Read_def DecUint64_def maxMsgLen_def
      ReadPrefix_loop_Silent)

subsection \<open>Writing a frame and reading it back\<close>

lemma WritePrefix_writes:
  assumes "wfail w = None"
  shows "WritePrefix w payload =
    (4 + int (length payload), None,
     w\<lparr>outbound := outbound w @ take 4 (EncUint64 (of_nat (length payload))) @ payload\<rparr>)"
  using assms by (simp add: WritePrefix_def conn_Write_def length_EncUint64)

lemma ReadPrefix_of_frame:
  assumes len: "length payload \<le> 65536"
    and r: "inbound r = [take 4 (EncUint64 (of_nat (length payload))) @ payload]"
           "ending r = Closed"
  shows "ReadPrefix r = Some (Inr payload, r\<lparr>inbound := []\<rparr>)"
proof -
  let ?enc = "take 4 (EncUint64 (of_nat (length payload)))"
  from len have lt: "length payload < 2 ^ 32" by simp
  have l4: "length ?enc = 4" by (simp add: length_EncUint64)
  have msgLen: "sint (DecUint64 ?enc) = int (length payload)"
    by (rule msgLen_of_length [OF lt])
  show ?thesis
  proof (cases "payload = []")
    case True
    with r l4 msgLen show ?thesis
      by (simp add: ReadPrefix_def conn_Read_def maxMsgLen_def ReadPrefix_loop_done)
  next
    case False
    with r l4 have rd: "conn_Read r 4 = Some (?enc, None, r\<lparr>inbound := [payload]\<rparr>)"
      by (simp add: conn_Read_def length_EncUint64)
    from False len r show ?thesis
      by (simp add: ReadPrefix_def rd l4 msgLen maxMsgLen_def ReadPrefix_loop_Closed
          length_EncUint64)
  qed
qed

lemma ReadPrefix_too_long:
  assumes len: "65536 < length payload" "length payload < 2 ^ 32"
    and r: "inbound r = (take 4 (EncUint64 (of_nat (length payload))) @ payload) # rest"
  shows "ReadPrefix r =
    Some (Inl (ErrNew ''message too long''), r\<lparr>inbound := payload # rest\<rparr>)"
proof -
  let ?enc = "take 4 (EncUint64 (of_nat (length payload)))"
  have l4: "length ?enc = 4" by (simp add: length_EncUint64)
  have msgLen: "sint (DecUint64 ?enc) = int (length payload)"
    by (rule msgLen_of_length [OF len(2)])
  from len have ne: "payload \<noteq> []" by auto
  with r l4 have rd: "conn_Read r 4 = Some (?enc, None, r\<lparr>inbound := payload # rest\<rparr>)"
    by (simp add: conn_Read_def length_EncUint64)
  from len show ?thesis
    by (simp add: ReadPrefix_def rd l4 msgLen maxMsgLen_def length_EncUint64)
qed

lemma enc_1: "take 4 (EncUint64 1) = [1, 0, 0, 0]"
  by (simp add: EncUint64_def enc_le_numeral)

lemma enc_65537: "take 4 (EncUint64 65537) = [1, 0, 1, 0]"
  by (simp add: EncUint64_def enc_le_numeral)

text \<open>
  C4, as the code has it. \<^verbatim>\<open>WritePrefix\<close> checks no size: on a connection whose
  writes succeed it writes the four length bytes and the payload, whatever the length
  of the payload, 65537 included. When what it wrote arrives in one piece on a
  connection that the writer then closes, \<^verbatim>\<open>ReadPrefix\<close> returns the payload
  unchanged if it has at most 65536 bytes (so for the sizes 0, 1 and 65536), and
  refuses it with the error \<^verbatim>\<open>message too long\<close> if it has more. (Lengths from
  \<open>2 ^ 32\<close> on do not fit the four length bytes.)
\<close>

theorem WritePrefix_unchecked_ReadPrefix_roundtrip:
  assumes "wfail w = None" and "length payload < 2 ^ 32"
    and "inbound r = [take 4 (EncUint64 (of_nat (length payload))) @ payload]"
    and "ending r = Closed"
  shows "WritePrefix w payload =
      (4 + int (length payload), None,
       w\<lparr>outbound := outbound w @ take 4 (EncUint64 (of_nat (length payload))) @ payload\<rparr>)
    \<and> ReadPrefix r =
      (if length payload \<le> 65536 then Some (Inr payload, r\<lparr>inbound := []\<rparr>)
       else Some (Inl (ErrNew ''message too long''), r\<lparr>inbound := [payload]\<rparr>))"
proof (intro conjI)
  show "WritePrefix w payload =
      (4 + int (length payload), None,
       w\<lparr>outbound := outbound w @ take 4 (EncUint64 (of_nat (length payload))) @ payload\<rparr>)"
    by (rule WritePrefix_writes [OF assms(1)])
next
  show "ReadPrefix r =
      (if length payload \<le> 65536 then Some (Inr payload, r\<lparr>inbound := []\<rparr>)
       else Some (Inl (ErrNew ''message too long''), r\<lparr>inbound := [payload]\<rparr>))"
  proof (cases "length payload \<le> 65536")
    case True
    with ReadPrefix_of_frame [OF True assms(3,4)] show ?thesis by simp
  next
    case False
    then have "65536 < length payload" by simp
    from ReadPrefix_too_long [OF this assms(2,3)] False show ?thesis by simp
  qed
qed

text \<open>
  The theorem at a payload of one byte and at a payload of 65537 bytes.
\<close>

theorem WritePrefix_unchecked_ReadPrefix_roundtrip_witness:
  "(WritePrefix (stream [] Silent) [7] =
      (5, None, (stream [] Silent)\<lparr>outbound := [1, 0, 0, 0, 7]\<rparr>)
    \<and> ReadPrefix (stream [[1, 0, 0, 0, 7]] Closed) = Some (Inr [7], stream [] Closed))
   \<and> ReadPrefix (stream [[1, 0, 1, 0] @ replicate 65537 0] Closed) =
        Some (Inl (ErrNew ''message too long''), stream [replicate 65537 0] Closed)"
proof (rule conjI)
  show "WritePrefix (stream [] Silent) [7] =
      (5, None, (stream [] Silent)\<lparr>outbound := [1, 0, 0, 0, 7]\<rparr>)
    \<and> ReadPrefix (stream [[1, 0, 0, 0, 7]] Closed) = Some (Inr [7], stream [] Closed)"
    using WritePrefix_unchecked_ReadPrefix_roundtrip
      [of "stream [] Silent" "[7]" "stream [[1, 0, 0, 0, 7]] Closed"]
    by (simp add: stream_def enc_1)
next
  show "ReadPrefix (stream [[1, 0, 1, 0] @ replicate 65537 0] Closed) =
        Some (Inl (ErrNew ''message too long''), stream [replicate 65537 0] Closed)"
    using WritePrefix_unchecked_ReadPrefix_roundtrip
      [of "stream [] Silent" "replicate 65537 0"
          "stream [[1, 0, 1, 0] @ replicate 65537 0] Closed"]
    by (simp add: stream_def enc_65537)
qed

text \<open>
  C4 as stated fails: a payload of 65537 bytes is not rejected by \<^verbatim>\<open>WritePrefix\<close>. It
  is written to the connection in full, behind the length prefix \<open>[1, 0, 1, 0]\<close>,
  and the call reports 65541 bytes written and no error.
\<close>

theorem WritePrefix_oversize_written:
  "WritePrefix (stream [] Silent) (replicate 65537 0) =
     (65541, None, (stream [] Silent)\<lparr>outbound := [1, 0, 1, 0] @ replicate 65537 0\<rparr>)"
  by (simp add: WritePrefix_def conn_Write_def stream_def enc_65537 length_EncUint64)

section \<open>Properties of the address book and the handlers\<close>

lemma P_distinct:
  "P1 \<noteq> P2" "P1 \<noteq> P3" "P2 \<noteq> P3" "P2 \<noteq> P1" "P3 \<noteq> P1" "P3 \<noteq> P2"
  by (simp_all add: P1_def P2_def P3_def)

lemma P_not_own: "P1 \<noteq> myAddr server0" "P2 \<noteq> myAddr server0" "P3 \<noteq> myAddr server0"
  by (simp_all add: P1_def P2_def P3_def server0_def)

lemma wfail_stream: "wfail (stream segs e) = None"
  by (simp add: stream_def)

subsection \<open>sharePeers\<close>

lemma unat_byte_pred: "num \<noteq> 0 \<Longrightarrow> unat (num - 1 :: byte) = unat num - 1"
  by (simp add: unat_minus_one)

text \<open>The loop collects the first \<open>num\<close> addresses of the order it visits.\<close>

lemma sharePeers_loop_take:
  "sharePeers_loop ord num addrs = addrs @ take (unat num) ord"
proof (induction ord arbitrary: num addrs)
  case Nil
  then show ?case by simp
next
  case (Cons addr rest)
  show ?case
  proof (cases "num = 0")
    case True
    then show ?thesis by simp
  next
    case False
    then have pos: "0 < unat num" by (simp add: unat_gt_0)
    from False have "unat (num - 1) = unat num - 1" by (rule unat_byte_pred)
    with False pos show ?thesis
      by (simp add: Cons.IH take_Cons')
  qed
qed

text \<open>
  C3. Let \<open>ord\<close> be the order in which the loop of \<^verbatim>\<open>sharePeers\<close> visits the book.
  On a payload of the one byte \<open>C\<close> the handler writes one frame, the marshalled
  list of the first \<open>C\<close> addresses of \<open>ord\<close> (and returns what the write returns);
  that list has exactly \<open>min N C\<close> entries for a book of \<open>N\<close> addresses, they are
  distinct, and all are in the book. On a payload of any other length it returns
  the error \<^verbatim>\<open>invalid number of peers\<close> and leaves the connection as it was:
  nothing is written.
\<close>

theorem sharePeers_reply:
  assumes "range_order book ord"
  shows "sharePeers mar ord c [C] =
      (case WritePrefix c (mar (take (unat C) ord)) of (n, err, c') \<Rightarrow> (err, c'))
    \<and> length (take (unat C) ord) = min (card book) (unat C)
    \<and> distinct (take (unat C) ord)
    \<and> set (take (unat C) ord) \<subseteq> book
    \<and> (length msgData \<noteq> 1 \<longrightarrow>
         sharePeers mar ord c msgData = (Some (ErrNew ''invalid number of peers''), c))"
proof -
  from assms have d: "distinct ord" and s: "set ord = book"
    by (simp_all add: range_order_def)
  from d s have card: "card book = length ord"
    by (auto simp: distinct_card)
  have "sharePeers mar ord c [C] =
      (case WritePrefix c (mar (take (unat C) ord)) of (n, err, c') \<Rightarrow> (err, c'))"
    by (simp add: sharePeers_def sharePeers_loop_take split: prod.splits)
  moreover have "length (take (unat C) ord) = min (card book) (unat C)"
    by (simp add: card min.commute)
  moreover from d have "distinct (take (unat C) ord)" by simp
  moreover from s have "set (take (unat C) ord) \<subseteq> book"
    by (auto dest: in_set_takeD)
  moreover have "length msgData \<noteq> 1 \<longrightarrow>
         sharePeers mar ord c msgData = (Some (ErrNew ''invalid number of peers''), c)"
    by (simp add: sharePeers_def)
  ultimately show ?thesis by blast
qed

text \<open>
  The theorem on the book \<open>{P1, P2, P3}\<close>, visited as \<open>P2, P3, P1\<close>: a request for
  two peers is answered with \<open>P2\<close> and \<open>P3\<close>, and a payload of two bytes is refused.
\<close>

theorem sharePeers_reply_witness:
  "range_order {P1, P2, P3} [P2, P3, P1]
   \<and> sharePeers marshal_addrs [P2, P3, P1] (stream [] Silent) [2] =
       (None, (stream [] Silent)\<lparr>outbound :=
          [11, 0, 0, 0, 2, 2, 112, 50, 162, 15, 2, 112, 51, 163, 15]\<rparr>)
   \<and> min (card {P1, P2, P3}) (unat (2 :: byte)) = 2
   \<and> sharePeers marshal_addrs [P2, P3, P1] (stream [] Silent) [2, 0] =
       (Some (ErrNew ''invalid number of peers''), stream [] Silent)"
proof -
  have ro: "range_order {P1, P2, P3} [P2, P3, P1]"
    by (auto simp: range_order_def P_distinct)
  have m: "marshal_addrs [P2, P3] = [2, 2, 112, 50, 162, 15, 2, 112, 51, 163, 15]"
    by code_simp
  have e: "take 4 (EncUint64 11) = [11, 0, 0, 0]"
    by (simp add: EncUint64_def enc_le_numeral)
  have t: "take (unat (2 :: byte)) [P2, P3, P1] = [P2, P3]"
    by simp
  from sharePeers_reply [OF ro, of marshal_addrs "stream [] Silent" 2 "[2, 0]"] ro
  show ?thesis
    by (simp add: t m e WritePrefix_def conn_Write_def stream_def length_EncUint64)
qed

subsection \<open>RandomPeer\<close>

text \<open>
  C7, as the code has it. On an empty book \<^verbatim>\<open>RandomPeer\<close> returns the zero
  \<^verbatim>\<open>NetAddress\<close>, the empty host with port 0. On a book that is not empty it returns
  the address that the \<^verbatim>\<open>range\<close> over the map visits first, which is a member of the
  book.
\<close>

theorem RandomPeer_first_in_order:
  "RandomPeer [] = \<lparr>Host = [], Port = 0\<rparr>
   \<and> (range_order book ord \<longrightarrow> book \<noteq> {} \<longrightarrow>
        RandomPeer ord = hd ord \<and> RandomPeer ord \<in> book)"
  by (cases ord) (auto simp: RandomPeer_def range_order_def)

theorem RandomPeer_first_in_order_witness:
  "range_order {P1, P2} [P2, P1] \<and> {P1, P2} \<noteq> {}
   \<and> RandomPeer [P2, P1] = P2 \<and> P2 \<in> {P1, P2}"
  using RandomPeer_first_in_order [of "{P1, P2}" "[P2, P1]"]
  by (auto simp: range_order_def P_distinct)

text \<open>
  C7 as stated fails. The result on the empty book is no outcome of its own: it is
  the zero address, the very result on the book that holds the zero address. And on
  the book of \<open>P1\<close> and \<open>P2\<close> the result is the first address of the iteration
  order, whichever that is; no random index is drawn.
\<close>

theorem RandomPeer_empty_book_default:
  "RandomPeer [] = \<lparr>Host = [], Port = 0\<rparr>
   \<and> RandomPeer [] = RandomPeer [\<lparr>Host = [], Port = 0\<rparr>]
   \<and> RandomPeer [P1, P2] = P1 \<and> RandomPeer [P2, P1] = P2"
  by (simp add: RandomPeer_def)

subsection \<open>RegisterRPC\<close>

text \<open>
  The test accepts exactly the function types with one input and the one result
  \<^verbatim>\<open>error\<close>, and no operand of it panics: each \<^verbatim>\<open>reflect\<close> call that needs a
  function type stands behind the test of the kind.
\<close>

lemma wrong_signature_cases:
  "wrong_signature fty = Returns (\<not> (\<exists>ty. fty = FuncType [ty] [ErrorType]))"
proof (cases fty)
  case (FuncType ins outs)
  show ?thesis
  proof (cases "length ins = 1 \<and> length outs = 1")
    case True
    then obtain ty out where "ins = [ty]" "outs = [out]"
      by (auto simp: length_Suc_conv)
    with FuncType show ?thesis
      by (auto simp: wrong_signature_def or_else_def)
  next
    case False
    with FuncType show ?thesis
      by (auto simp: wrong_signature_def or_else_def)
  qed
qed (simp_all add: wrong_signature_def or_else_def)

text \<open>
  So on every value other than the \<^verbatim>\<open>nil\<close> interface \<^verbatim>\<open>RegisterRPC\<close> returns: with the
  error and the server as it was when the signature is wrong, with \<^verbatim>\<open>nil\<close> and the
  handler registered otherwise.
\<close>

lemma RegisterRPC_value:
  "RegisterRPC tcps t (Iface fty val) =
     (if \<exists>ty. fty = FuncType [ty] [ErrorType]
      then Returns (None, tcps\<lparr>handlerMap := (handlerMap tcps)(t \<mapsto> RPC fty val)\<rparr>)
      else Returns (Some (ErrNew ''registered function has wrong type signature''), tcps))"
  by (simp add: RegisterRPC_def wrong_signature_cases RegisterHandler_def)

text \<open>
  The handler that a successful registration stores: when the payload does not
  decode, it returns the decoder's error and the registered function is not called;
  when it decodes, the function is called once, on the decoded value.
\<close>

lemma sfn_decode_failure:
  assumes "unm ty b = Inl err"
  shows "sfn unm (FuncType [ty] [ErrorType]) val b = Returns (Some err, [])"
  using assms by (simp add: sfn_def)

lemma sfn_decoded:
  assumes "unm ty b = Inr v"
  shows "sfn unm (FuncType [ty] [ErrorType]) val b = Returns (val v, [v])"
  using assms by (simp add: sfn_def)

text \<open>
  C5, where the code departs from the claim. The \<^verbatim>\<open>nil\<close> interface is not a
  function, and the claim asks for an error at registration and never a crash.
  \<^verbatim>\<open>RegisterRPC\<close> calls \<^verbatim>\<open>typ.Kind()\<close> on the \<^verbatim>\<open>nil\<close> type that \<^verbatim>\<open>reflect.TypeOf(nil)\<close>
  returns, and panics.
\<close>

theorem RegisterRPC_nil_panics:
  "RegisterRPC server0 88 NilIface = Panics ''invalid memory address or nil pointer dereference''"
  by (simp add: RegisterRPC_def)

text \<open>
  C10. When \<^verbatim>\<open>RegisterRPC\<close> returns an error, the server it leaves is the server it
  was given: the handler table has the bindings it had, for the given tag and for
  every other.
\<close>

theorem RegisterRPC_rejection_leaves_table:
  assumes "RegisterRPC tcps t fn = Returns (Some err, tcps')"
  shows "handlerMap tcps' = handlerMap tcps \<and> tcps' = tcps"
proof (cases fn)
  case NilIface
  with assms show ?thesis by (simp add: RegisterRPC_def)
next
  case (Iface fty val)
  with assms show ?thesis
    by (simp add: RegisterRPC_value split: if_splits)
qed

text \<open>
  The theorem on a function of two inputs, registered for the tag \<^verbatim>\<open>'A'\<close>: it is
  rejected, and the tag keeps its handler \<^verbatim>\<open>addPeer\<close>.
\<close>

theorem RegisterRPC_rejection_leaves_table_witness:
  "RegisterRPC server0 65
      (Iface (FuncType [NamedType ''int'', NamedType ''int''] [ErrorType]) (\<lambda>v. None)) =
     Returns (Some (ErrNew ''registered function has wrong type signature''), server0)
   \<and> handlerMap server0 65 = Some AddPeer"
proof -
  have r: "RegisterRPC server0 65
      (Iface (FuncType [NamedType ''int'', NamedType ''int''] [ErrorType]) (\<lambda>v. None)) =
     Returns (Some (ErrNew ''registered function has wrong type signature''), server0)"
    by (simp add: RegisterRPC_value)
  from RegisterRPC_rejection_leaves_table [OF r] r show ?thesis
    by (simp add: server0_def)
qed

subsection \<open>addPeer\<close>

text \<open>
  C2, where the code departs from the claim. The server does not have its own
  address in its book. A peer announces that very address; \<^verbatim>\<open>addPeer\<close> decodes it
  and inserts it without comparing it with \<^verbatim>\<open>myAddr\<close>, as \<^verbatim>\<open>requestPeers\<close> does
  before it inserts. Afterwards the book holds the node's own address.
\<close>

theorem addPeer_inserts_own_address:
  "myAddr server0 \<notin> addressbook server0
   \<and> addPeer unmarshal_addr server0 (marshal_addr (myAddr server0)) =
       (None, server0\<lparr>addressbook := {myAddr server0}\<rparr>)"
proof -
  have "unmarshal_addr (marshal_addr (myAddr server0)) = Inr (myAddr server0)"
    by code_simp
  then show ?thesis
    by (simp add: addPeer_def server0_def)
qed

text \<open>
  The first loop of \<^verbatim>\<open>Bootstrap\<close> does not compare with \<^verbatim>\<open>myAddr\<close> either: a seed
  list that names the node's own address, on a network where every dial succeeds,
  puts it into the book.
\<close>

lemma Bootstrap_seed_inserts_own_address:
  "Bootstrap_seed (\<lambda>k a. Some (stream [] Closed)) [myAddr server0] (0, server0) =
     (1, server0\<lparr>addressbook := {myAddr server0}\<rparr>)"
  by (simp add: Ping_def server0_def)

section \<open>Properties of peer discovery and of Bootstrap\<close>

subsection \<open>requestPeers\<close>

lemma ex_less_Suc_shift: "(\<exists>i<Suc n. P i) \<longleftrightarrow> P 0 \<or> (\<exists>i<n. P (Suc i))"
  by (metis less_Suc_eq_0_disj)

lemma probes_before_0: "probes_before my addrs 0 = 0"
  by (simp add: probes_before_def)

lemma probes_before_Suc:
  "probes_before my (a # addrs) (Suc i) = (if a \<noteq> my then 1 else 0) + probes_before my addrs i"
  by (simp add: probes_before_def)

text \<open>
  The loop over the reply: the book gains the addresses that are not the node's own
  and whose probe, made when the loop reaches them, succeeds; nothing else changes.
\<close>

lemma requestPeers_loop_result:
  "requestPeers_loop net addrs (clk, tcps) =
     (clk + probes_before (myAddr tcps) addrs (length addrs),
      tcps\<lparr>addressbook := addressbook tcps \<union>
        {a. \<exists>i<length addrs. addrs ! i = a \<and> a \<noteq> myAddr tcps \<and>
              net (clk + probes_before (myAddr tcps) addrs i) a \<noteq> None}\<rparr>)"
proof (induction addrs arbitrary: clk tcps)
  case Nil
  then show ?case by (simp add: probes_before_0)
next
  case (Cons addr rest)
  let ?my = "myAddr tcps"
  let ?acc = "\<lambda>k xs. {a. \<exists>i<length xs. xs ! i = a \<and> a \<noteq> ?my \<and>
              net (k + probes_before ?my xs i) a \<noteq> None}"
  have split: "?acc clk (addr # rest) =
      (if addr \<noteq> ?my \<and> net clk addr \<noteq> None then {addr} else {})
      \<union> ?acc (clk + (if addr \<noteq> ?my then 1 else 0)) rest"
    by (auto simp: ex_less_Suc_shift probes_before_0 probes_before_Suc)
  show ?case
  proof (cases "addr = ?my")
    case True
    then show ?thesis
      using split by (simp add: Cons.IH probes_before_Suc)
  next
    case False
    show ?thesis
    proof (cases "net clk addr")
      case None
      with False show ?thesis
        using split by (simp add: Cons.IH probes_before_Suc Ping_def)
    next
      case (Some c)
      with False have "?acc clk (addr # rest) = insert addr (?acc (Suc clk) rest)"
        using split by simp
      with False Some show ?thesis
        by (simp add: Cons.IH probes_before_Suc Ping_def Un_commute insert_commute)
    qed
  qed
qed

text \<open>This loop keeps the node's own address out of the book.\<close>

lemma requestPeers_loop_keeps_own_address_out:
  assumes "myAddr tcps \<notin> addressbook tcps"
    and "requestPeers_loop net addrs (clk, tcps) = (clk', tcps')"
  shows "myAddr tcps' \<notin> addressbook tcps'"
  using assms by (auto simp: requestPeers_loop_result)

text \<open>When \<^verbatim>\<open>requestPeers\<close> returns an error, it has changed nothing.\<close>

lemma requestPeers_error_keeps_state:
  assumes "requestPeers unm net c st = Some (Some err, st')"
  shows "st' = st"
  using assms
  by (auto simp: requestPeers_def split: prod.splits option.splits sum.splits)

text \<open>
  C6. Let the request be written, and let the reply be read and decode to the list
  \<open>addrs\<close>. Then \<^verbatim>\<open>requestPeers\<close> returns \<^verbatim>\<open>nil\<close>, and the book afterwards is the
  book before together with exactly those addresses of \<open>addrs\<close> that are not the
  node's own address and whose ping probe succeeds (the probe is the dial made when
  the loop reaches the address). An address of the reply that is the node's own, or
  whose probe fails, is not inserted: the book is as it was as far as that address
  goes. Nothing else of the server changes.
\<close>

theorem requestPeers_inserts_probed:
  assumes "wfail c = None"
    and "ReadPrefix (c\<lparr>outbound := outbound c @ [80, 1, 0, 0, 0, 10]\<rparr>) = Some (Inr data, c2)"
    and "unm data = Inr addrs"
  shows "requestPeers unm net c (clk, tcps) =
     Some (None,
       (clk + probes_before (myAddr tcps) addrs (length addrs),
        tcps\<lparr>addressbook := addressbook tcps \<union>
          {a. \<exists>i<length addrs. addrs ! i = a \<and> a \<noteq> myAddr tcps \<and>
                net (clk + probes_before (myAddr tcps) addrs i) a \<noteq> None}\<rparr>))"
  using assms
  by (simp add: requestPeers_def conn_Write_def requestPeers_loop_result)

lemma reply_decodes:
  "unmarshal_addrs [3, 2, 112, 50, 162, 15, 0, 4, 39, 2, 112, 51, 163, 15] =
     Inr [P2, myAddr server0, P3]"
  by code_simp

lemma enc_14: "take 4 (EncUint64 14) = [14, 0, 0, 0]"
  by (simp add: EncUint64_def enc_le_numeral)

text \<open>
  The theorem on a reply that lists \<open>P2\<close>, the node's own address and \<open>P3\<close>, on the
  network where only \<open>P2\<close> can be reached: two probes are made, and the book gains
  \<open>P2\<close> alone.
\<close>

theorem requestPeers_inserts_probed_witness:
  "requestPeers unmarshal_addrs net_P2_only
      (stream [[14, 0, 0, 0, 3, 2, 112, 50, 162, 15, 0, 4, 39, 2, 112, 51, 163, 15]] Closed)
      (0, server0) =
     Some (None, (2, server0\<lparr>addressbook := {P2}\<rparr>))"
proof -
  let ?data = "[3, 2, 112, 50, 162, 15, 0, 4, 39, 2, 112, 51, 163, 15] :: byte list"
  let ?c = "stream [[14, 0, 0, 0] @ ?data] Closed"
  let ?c1 = "?c\<lparr>outbound := outbound ?c @ [80, 1, 0, 0, 0, 10]\<rparr>"
  have w: "wfail ?c = None" by (simp add: stream_def)
  have "ReadPrefix ?c1 = Some (Inr ?data, ?c1\<lparr>inbound := []\<rparr>)"
  proof (rule ReadPrefix_of_frame)
    show "length ?data \<le> 65536" by simp
    show "inbound ?c1 = [take 4 (EncUint64 (of_nat (length ?data))) @ ?data]"
      by (simp add: stream_def enc_14)
    show "ending ?c1 = Closed" by (simp add: stream_def)
  qed
  then have r: "ReadPrefix ?c1 =
      Some (Inr ?data, ?c\<lparr>outbound := [80, 1, 0, 0, 0, 10], inbound := []\<rparr>)"
    by (simp add: stream_def)
  have set_eq: "{a. \<exists>i<length [P2, myAddr server0, P3].
        [P2, myAddr server0, P3] ! i = a \<and> a \<noteq> myAddr server0 \<and>
        net_P2_only (0 + probes_before (myAddr server0) [P2, myAddr server0, P3] i) a \<noteq> None}
      = {P2}"
    by (auto simp: net_P2_only_def less_Suc_eq numeral_3_eq_3 P_distinct P_not_own
        intro!: exI [of _ 0])
  have n: "probes_before (myAddr server0) [P2, myAddr server0, P3]
      (length [P2, myAddr server0, P3]) = 2"
    by (simp add: probes_before_def P_not_own)
  have book0: "addressbook server0 = {}" by (simp add: server0_def)
  have "requestPeers unmarshal_addrs net_P2_only ?c (0, server0) =
     Some (None,
       (0 + probes_before (myAddr server0) [P2, myAddr server0, P3]
              (length [P2, myAddr server0, P3]),
        server0\<lparr>addressbook := addressbook server0 \<union>
          {a. \<exists>i<length [P2, myAddr server0, P3].
                [P2, myAddr server0, P3] ! i = a \<and> a \<noteq> myAddr server0 \<and>
                net_P2_only (0 + probes_before (myAddr server0) [P2, myAddr server0, P3] i) a
                  \<noteq> None}\<rparr>))"
    using w r reply_decodes by (rule requestPeers_inserts_probed)
  then show ?thesis
    unfolding set_eq n book0 by simp
qed

subsection \<open>Bootstrap\<close>

lemma conn_Write_ok:
  "wfail c = None \<Longrightarrow>
     conn_Write c b = (int (length b), None, c\<lparr>outbound := outbound c @ b\<rparr>)"
  by (simp add: conn_Write_def)

lemma conn_Write_cases:
  "(\<exists>e. conn_Write c b = (0, Some e, c)) \<or>
   conn_Write c b = (int (length b), None, c\<lparr>outbound := outbound c @ b\<rparr>)"
  by (cases "wfail c") (simp_all add: conn_Write_def)

text \<open>
  The functions that \<^verbatim>\<open>Bootstrap\<close> calls on a connection return as soon as the read
  of the reply does.
\<close>

lemma learnHostname_returns:
  assumes "\<And>out. ReadPrefix (c\<lparr>outbound := out\<rparr>) \<noteq> None"
  shows "learnHostname shp c st \<noteq> None"
proof -
  obtain clk tcps where st: "st = (clk, tcps)" by (cases st)
  from conn_Write_cases [of c "[72, 0, 0, 0, 0]"] show ?thesis
  proof
    assume "\<exists>e. conn_Write c [72, 0, 0, 0, 0] = (0, Some e, c)"
    then show ?thesis by (auto simp: learnHostname_def st)
  next
    assume w: "conn_Write c [72, 0, 0, 0, 0] =
      (int (length [72, 0, 0, 0, 0 :: byte]), None,
       c\<lparr>outbound := outbound c @ [72, 0, 0, 0, 0]\<rparr>)"
    from assms obtain res where
      "ReadPrefix (c\<lparr>outbound := outbound c @ [72, 0, 0, 0, 0]\<rparr>) = Some res"
      by blast
    with w show ?thesis
      by (auto simp: learnHostname_def st split: prod.splits sum.splits)
  qed
qed

lemma requestPeers_returns:
  assumes "\<And>out. ReadPrefix (c\<lparr>outbound := out\<rparr>) \<noteq> None"
  shows "requestPeers unm net c st \<noteq> None"
proof -
  from conn_Write_cases [of c "[80, 1, 0, 0, 0, 10]"] show ?thesis
  proof
    assume "\<exists>e. conn_Write c [80, 1, 0, 0, 0, 10] = (0, Some e, c)"
    then show ?thesis by (auto simp: requestPeers_def)
  next
    assume w: "conn_Write c [80, 1, 0, 0, 0, 10] =
      (int (length [80, 1, 0, 0, 0, 10 :: byte]), None,
       c\<lparr>outbound := outbound c @ [80, 1, 0, 0, 0, 10]\<rparr>)"
    from assms obtain res where
      "ReadPrefix (c\<lparr>outbound := outbound c @ [80, 1, 0, 0, 0, 10]\<rparr>) = Some res"
      by blast
    with w show ?thesis
      by (auto simp: requestPeers_def split: prod.splits sum.splits)
  qed
qed

lemma Call_returns:
  assumes "\<And>c s. net (fst st) na = Some c \<Longrightarrow> fn c s \<noteq> None"
  shows "Call net na fn st \<noteq> None"
  using assms by (cases st) (auto simp: Call_def split: option.splits)

lemma Bootstrap_learn_returns:
  assumes "reads_return net"
  shows "Bootstrap_learn shp net ord st \<noteq> None"
proof (induction ord arbitrary: st)
  case Nil
  then show ?case by simp
next
  case (Cons addr rest)
  have "Call net addr (learnHostname shp) st \<noteq> None"
  proof (rule Call_returns)
    fix c s
    assume "net (fst st) addr = Some c"
    with assms have "\<And>out. ReadPrefix (c\<lparr>outbound := out\<rparr>) \<noteq> None"
      by (simp add: reads_return_def)
    then show "learnHostname shp c s \<noteq> None" by (rule learnHostname_returns)
  qed
  then obtain err st' where "Call net addr (learnHostname shp) st = Some (err, st')"
    by (cases "Call net addr (learnHostname shp) st") auto
  with Cons.IH [of st'] show ?case by simp
qed

lemma Broadcast_returns:
  assumes "\<And>k na c s. net k na = Some c \<Longrightarrow> fn c s \<noteq> None"
  shows "Broadcast net ord fn st \<noteq> None"
proof (induction ord arbitrary: st)
  case Nil
  then show ?case by simp
next
  case (Cons addr rest)
  have "Call net addr fn st \<noteq> None"
    by (rule Call_returns) (rule assms)
  then obtain err st' where "Call net addr fn st = Some (err, st')"
    by (cases "Call net addr fn st") auto
  with Cons.IH [of st'] show ?case by simp
qed

text \<open>
  C9, as the code has it. \<^verbatim>\<open>Bootstrap\<close> never assigns its result \<^verbatim>\<open>err\<close>: whenever it
  returns, for every seed list, every network and every order of its loops, the
  error is \<^verbatim>\<open>nil\<close>. And it does return on every network on which no read of a reply
  is left waiting, so with peers that cannot be reached, that close the connection
  without an answer, or that answer with a complete frame.
\<close>

theorem Bootstrap_never_reports_error:
  "(\<forall>err st'. Bootstrap shp unm marA net seeds ord_learn ord_request ord_announce st
        = Some (err, st') \<longrightarrow> err = None)
   \<and> (reads_return net \<longrightarrow>
        (\<exists>st'. Bootstrap shp unm marA net seeds ord_learn ord_request ord_announce st
           = Some (None, st')))"
proof (intro conjI allI impI)
  fix err st'
  assume "Bootstrap shp unm marA net seeds ord_learn ord_request ord_announce st = Some (err, st')"
  then show "err = None"
    by (auto simp: Bootstrap_def Let_def split: option.splits)
next
  assume rr: "reads_return net"
  let ?st1 = "Bootstrap_seed net seeds st"
  from Bootstrap_learn_returns [OF rr] obtain st2 where
    l: "Bootstrap_learn shp net ord_learn ?st1 = Some st2" by blast
  have "Broadcast net ord_request (requestPeers unm net) st2 \<noteq> None"
  proof (rule Broadcast_returns)
    fix k na c s
    assume "net k na = Some c"
    with rr have "\<And>out. ReadPrefix (c\<lparr>outbound := out\<rparr>) \<noteq> None"
      by (simp add: reads_return_def)
    then show "requestPeers unm net c s \<noteq> None" by (rule requestPeers_returns)
  qed
  then obtain st3 where r: "Broadcast net ord_request (requestPeers unm net) st2 = Some st3"
    by blast
  have "Broadcast net ord_announce
          (\<lambda>c s. case SendVal 65 (marA (myAddr (snd st3))) c of (e, c') \<Rightarrow> Some (e, s)) st3
        \<noteq> None"
    by (rule Broadcast_returns) (simp split: prod.splits)
  then obtain st4 where a: "Broadcast net ord_announce
          (\<lambda>c s. case SendVal 65 (marA (myAddr (snd st3))) c of (e, c') \<Rightarrow> Some (e, s)) st3
        = Some st4"
    by blast
  from l r a show "\<exists>st'. Bootstrap shp unm marA net seeds ord_learn ord_request ord_announce st
           = Some (None, st')"
    by (simp add: Bootstrap_def Let_def)
qed

text \<open>The bootstrap scenario of the spec, step by step.\<close>

lemma ReadPrefix_stream_frame:
  assumes "length payload \<le> 65536"
  shows "ReadPrefix ((stream [frame payload] Closed)\<lparr>outbound := out\<rparr>) =
     Some (Inr payload, (stream [] Closed)\<lparr>outbound := out\<rparr>)"
proof -
  let ?r = "(stream [frame payload] Closed)\<lparr>outbound := out\<rparr>"
  have "ReadPrefix ?r = Some (Inr payload, ?r\<lparr>inbound := []\<rparr>)"
    using assms by (rule ReadPrefix_of_frame) (simp_all add: stream_def frame_def)
  then show ?thesis by (simp add: stream_def)
qed

lemma ReadPrefix_stream_empty:
  "ReadPrefix ((stream [] Closed)\<lparr>outbound := out\<rparr>) =
     Some (Inl (ErrNew ''could not read length prefix''), (stream [] Closed)\<lparr>outbound := out\<rparr>)"
  by (simp add: ReadPrefix_def conn_Read_def stream_def)

lemma host_reply_length: "length host_reply \<le> 65536"
  by (simp add: host_reply_def string_to_bytes_def)

lemma peers_reply_length: "length peers_reply \<le> 65536"
  by (simp add: peers_reply_def marshal_addrs_def marshal_addr_def string_to_bytes_def
      P2_def P3_def)

lemma host_reply_splits:
  "split_host_port (bytes_to_string host_reply) = Inr (''203.0.113.5'', ''4001'')"
  by code_simp

lemma peers_reply_decodes: "unmarshal_addrs peers_reply = Inr [P2, P3]"
  by code_simp

lemma reads_return_scenario: "reads_return net_scenario"
  by (auto simp: reads_return_def net_scenario_def ReadPrefix_stream_empty
      ReadPrefix_stream_frame host_reply_length peers_reply_length split: if_splits)

lemma Bootstrap_scenario:
  "Bootstrap split_host_port unmarshal_addrs marshal_addr net_scenario [P1] [P1] [P1] [P1, P2]
     (0, server0) =
   Some (None, (7, server0\<lparr>myAddr := \<lparr>Host = ''203.0.113.5'', Port = 9988\<rparr>,
                            addressbook := {P1, P2}\<rparr>))"
proof -
  let ?s2 = "server0\<lparr>myAddr := \<lparr>Host = ''203.0.113.5'', Port = 9988\<rparr>, addressbook := {P1}\<rparr>"
  have own: "P2 \<noteq> \<lparr>Host = ''203.0.113.5'', Port = 9988\<rparr>"
    "P3 \<noteq> \<lparr>Host = ''203.0.113.5'', Port = 9988\<rparr>"
    by (simp_all add: P2_def P3_def)
  have seed: "Bootstrap_seed net_scenario [P1] (0, server0) =
      (1, server0\<lparr>addressbook := {P1}\<rparr>)"
    by (simp add: Ping_def net_scenario_def server0_def)
  have learn: "Bootstrap_learn split_host_port net_scenario [P1]
        (1, server0\<lparr>addressbook := {P1}\<rparr>) = Some (2, ?s2)"
    by (simp add: Call_def net_scenario_def learnHostname_def conn_Write_ok wfail_stream
        ReadPrefix_stream_frame [where out = "[72, 0, 0, 0, 0]", simplified stream_def, simplified]
        host_reply_length host_reply_splits stream_def server0_def)
  have loop: "requestPeers_loop net_scenario [P2, P3] (3, ?s2) =
      (5, ?s2\<lparr>addressbook := {P1, P2}\<rparr>)"
    by (simp add: Ping_def net_scenario_def own P_distinct server0_def insert_commute)
  have request: "Broadcast net_scenario [P1] (requestPeers unmarshal_addrs net_scenario) (2, ?s2) =
      Some (5, ?s2\<lparr>addressbook := {P1, P2}\<rparr>)"
    using loop
    by (simp add: Call_def net_scenario_def requestPeers_def conn_Write_ok wfail_stream
        ReadPrefix_stream_frame [where out = "[80, 1, 0, 0, 0, 10]", simplified stream_def, simplified]
        peers_reply_length peers_reply_decodes stream_def numeral_3_eq_3)
  have announce: "Broadcast net_scenario [P1, P2]
        (\<lambda>c s. case SendVal 65
                   (marshal_addr (myAddr (snd (5 :: nat, ?s2\<lparr>addressbook := {P1, P2}\<rparr>)))) c of
                  (e, c') \<Rightarrow> Some (e, s))
        (5, ?s2\<lparr>addressbook := {P1, P2}\<rparr>) =
      Some (7, ?s2\<lparr>addressbook := {P1, P2}\<rparr>)"
    by (simp add: Call_def net_scenario_def P_distinct SendVal_def Let_def conn_Write_ok
        wfail_stream split: prod.splits)
  from seed learn request announce show ?thesis
    by (simp add: Bootstrap_def Let_def)
qed

text \<open>
  The theorem on that scenario: every read returns there, and \<^verbatim>\<open>Bootstrap\<close> returns
  \<^verbatim>\<open>nil\<close> after seven dials, with the host learnt and the book holding \<open>P1\<close> and
  \<open>P2\<close>.
\<close>

theorem Bootstrap_never_reports_error_witness:
  "reads_return net_scenario
   \<and> Bootstrap split_host_port unmarshal_addrs marshal_addr net_scenario [P1] [P1] [P1] [P1, P2]
       (0, server0) =
     Some (None, (7, server0\<lparr>myAddr := \<lparr>Host = ''203.0.113.5'', Port = 9988\<rparr>,
                              addressbook := {P1, P2}\<rparr>))"
  using Bootstrap_never_reports_error
    [of split_host_port unmarshal_addrs marshal_addr net_scenario "[P1]" "[P1]" "[P1]"
        "[P1, P2]" "(0, server0)"]
    reads_return_scenario Bootstrap_scenario
  by simp

text \<open>
  C9 as stated fails: \<^verbatim>\<open>Bootstrap\<close> does not return for every behaviour of the peers.
  The seed \<open>P1\<close> accepts connections, sends no hostname reply and keeps the
  connection open; the read of the reply in \<^verbatim>\<open>learnHostname\<close> has no deadline, and
  \<^verbatim>\<open>Bootstrap\<close> never returns.
\<close>

theorem Bootstrap_silent_peer_never_returns:
  "Bootstrap split_host_port unmarshal_addrs marshal_addr net_silent_P1 [P1] [P1] [P1] [P1]
     (0, server0) = None"
  by (simp add: Bootstrap_def Let_def Ping_def Call_def net_silent_P1_def learnHostname_def
      conn_Write_def ReadPrefix_def conn_Read_def stream_def)

end
